theory Spec2Isabelle
  imports Complex_Main
begin

section \<open>Text, bytes and errors\<close>

text \<open>
  A Python \<open>str\<close> is a sequence of Unicode code points; \<open>len\<close> counts code points,
  not bytes. Code points are natural numbers here, so that the difference between
  \<open>len(s)\<close> and \<open>len(s.encode('utf8'))\<close> stays visible. Strings read from a file
  opened with \<open>encoding='utf8'\<close> hold scalar values only (no surrogates), for which
  \<open>encode\<close> cannot fail.
\<close>

type_synonym str = "nat list"

definition u :: "string \<Rightarrow> str" where
  \<comment> \<open>an ASCII literal as a Python string\<close>
  "u s = map of_char s"

definition utf8_width :: "nat \<Rightarrow> nat" where
  \<comment> \<open>number of bytes of one code point in UTF-8\<close>
  "utf8_width c = (if c < 128 then 1 else if c < 2048 then 2 else if c < 65536 then 3 else 4)"

fun utf8_len :: "str \<Rightarrow> nat" where
  \<comment> \<open>\<open>len(s.encode('utf8'))\<close>\<close>
  "utf8_len [] = 0"
| "utf8_len (c # cs) = utf8_width c + utf8_len cs"

datatype py_error =
    SystemExit int string  \<comment> \<open>\<open>sys.exit(status)\<close> after printing the message to stderr\<close>
  | ValueError
  | IndexError
  | ZeroDivisionError
  | TypeError
  | UnicodeDecodeError

section \<open>Corpus parser: \<open>read_fortunes\<close>\<close>

definition delimiter :: str where
  \<comment> \<open>the line \<open>"%\n"\<close>\<close>
  "delimiter = [37, 10]"

text \<open>
  The generator loops over the lines of the stream with the local state
  \<open>fortune_lines\<close>, \<open>start\<close> and \<open>pos\<close>; the model returns the list of triples it
  yields, in order. The \<open>continue\<close> of the branch \<open>pos == 0\<close> leaves the loop body
  before \<open>pos += len(line.encode('utf8'))\<close>, so that branch recurses with \<open>pos\<close>
  unchanged. A record closed by a delimiter is yielded with \<open>len(fortune)\<close>, the one
  left at the end of input with \<open>pos - start\<close>.
\<close>

fun read_fortunes_loop :: "str list \<Rightarrow> str list \<Rightarrow> int \<Rightarrow> int \<Rightarrow> (int \<times> int \<times> str) list" where
  "read_fortunes_loop [] fortune_lines start pos =
     (let fortune = concat fortune_lines in
      if fortune \<noteq> [] then [(start, pos - start, fortune)] else [])"
| "read_fortunes_loop (line # rest) fortune_lines start pos =
     (if line = delimiter then
        (if pos = 0 then read_fortunes_loop rest fortune_lines start pos
         else
           (let fortune = concat fortune_lines in
            (if fortune \<noteq> [] then [(start, int (length fortune), fortune)] else [])
            @ read_fortunes_loop rest [] (- 1) (pos + int (utf8_len line))))
      else
        read_fortunes_loop rest (fortune_lines @ [line])
          (if start = - 1 then pos else start) (pos + int (utf8_len line)))"

definition read_fortunes :: "str list \<Rightarrow> (int \<times> int \<times> str) list" where
  "read_fortunes fortune_file = read_fortunes_loop fortune_file [] (- 1) 0"

section \<open>Text extractor\<close>

definition rot13_char :: "nat \<Rightarrow> nat" where
  \<comment> \<open>the \<open>rot13\<close> codec: the 26 ASCII letters of each case rotate by 13, all else stays\<close>
  "rot13_char c =
     (if 65 \<le> c \<and> c \<le> 90 then 65 + (c - 65 + 13) mod 26
      else if 97 \<le> c \<and> c \<le> 122 then 97 + (c - 97 + 13) mod 26
      else c)"

definition rot13 :: "str \<Rightarrow> str" where
  "rot13 s = map rot13_char s"

definition endswith :: "str \<Rightarrow> str \<Rightarrow> bool" where
  "endswith s suffix = (length suffix \<le> length s \<and> drop (length s - length suffix) s = suffix)"

text \<open>
  The corpus file is opened in text mode (\<open>open(fortune_file, 'r', encoding='utf8')\<close>).
  Its content is the decoded text; a position of the stream is a byte offset into the
  encoded file. \<open>seek\<close> moves to a byte offset; \<open>read(n)\<close> on a text stream returns at
  most \<open>n\<close> characters (all the rest for a negative \<open>n\<close>), and fails to decode when the
  stream was left inside the bytes of one character. Files are taken to hold valid
  UTF-8 without carriage returns, so that decoding is the identity on lines.
\<close>

fun seek_bytes :: "nat \<Rightarrow> str \<Rightarrow> py_error + str" where
  "seek_bytes n [] = Inr []"
| "seek_bytes n (c # cs) =
     (if n = 0 then Inr (c # cs)
      else if utf8_width c \<le> n then seek_bytes (n - utf8_width c) cs
      else Inl UnicodeDecodeError)"

definition read_at :: "str \<Rightarrow> int \<Rightarrow> int \<Rightarrow> py_error + str" where
  \<comment> \<open>\<open>ffh.seek(start); ffh.read(length)\<close>\<close>
  "read_at text start len =
     (if start < 0 then Inl ValueError
      else if len = 0 then Inr []
      else
        (case seek_bytes (nat start) text of
           Inl e \<Rightarrow> Inl e
         | Inr rest \<Rightarrow> Inr (if len < 0 then rest else take (nat len) rest)))"

section \<open>The file system and the random source\<close>

text \<open>
  What the program reads from its environment: which paths are directories, what
  \<open>glob(os.path.join(path, "*" + INDEX_EXT))\<close> lists for a directory, the unpickled
  content of each index file (absent when the file does not exist) and the text of
  each corpus file (absent when it cannot be opened).
\<close>

record filesystem =
  isdir :: "str \<Rightarrow> bool"
  glob_index :: "str \<Rightarrow> str list"
  index_files :: "str \<Rightarrow> (int \<times> int) list option"
  contents :: "str \<Rightarrow> str option"

definition INDEX_EXT :: str where
  "INDEX_EXT = u ''.p4dat''"

definition ATTEMPTS :: int where
  "ATTEMPTS = 10000"

definition fortune_file_data :: "filesystem \<Rightarrow> str \<Rightarrow> py_error + (int \<times> int) list" where
  \<comment> \<open>a missing index file raises \<open>ValueError\<close>; one that exists is taken to open and to
      unpickle to its list of pairs\<close>
  "fortune_file_data fs fortune_file =
     (case index_files fs (fortune_file @ INDEX_EXT) of
        None \<Rightarrow> Inl ValueError
      | Some data \<Rightarrow> Inr data)"

text \<open>
  The \<open>secrets\<close> module draws from the system's random source. The source is the
  sequence \<open>rnd\<close> of its raw values and a counter of the values consumed so far:
  \<open>randbelow(n)\<close> reduces the next raw value into \<open>[0, n)\<close>, so every value of the range
  is the outcome for some source, and \<open>choice(seq)\<close> indexes with \<open>randbelow(len(seq))\<close>.
\<close>

type_synonym rand = "nat \<Rightarrow> nat"

definition randbelow :: "rand \<Rightarrow> nat \<Rightarrow> int \<Rightarrow> py_error + (int \<times> nat)" where
  "randbelow rnd k n = (if n \<le> 0 then Inl ValueError else Inr (int (rnd k) mod n, Suc k))"

definition choice :: "rand \<Rightarrow> nat \<Rightarrow> 'a list \<Rightarrow> py_error + ('a \<times> nat)" where
  "choice rnd k seq =
     (if seq = [] then Inl IndexError else Inr (seq ! (rnd k mod length seq), Suc k))"

section \<open>Corpus resolver: \<open>fortune_files_from_paths\<close> and \<open>check_percentages\<close>\<close>

definition is_digit :: "nat \<Rightarrow> bool" where
  "is_digit c = (48 \<le> c \<and> c \<le> 57)"

text \<open>
  \<open>re.compile('([0-9]{1,2})%').match(path)\<close>: the pattern is tried at the start of the
  string and need not reach its end. The result is group 1 of the match: two digits
  when a \<open>%\<close> follows them, else one digit when a \<open>%\<close> follows it.
\<close>

fun percentage_match :: "str \<Rightarrow> str option" where
  "percentage_match (a # b # c # rest) =
     (if is_digit a \<and> is_digit b \<and> c = 37 then Some [a, b]
      else if is_digit a \<and> b = 37 then Some [a]
      else None)"
| "percentage_match [a, b] = (if is_digit a \<and> b = 37 then Some [a] else None)"
| "percentage_match [a] = None"
| "percentage_match [] = None"

definition int_of_digits :: "str \<Rightarrow> int" where
  \<comment> \<open>\<open>int(s)\<close> for a string of decimal digits\<close>
  "int_of_digits s = foldl (\<lambda>acc c. 10 * acc + (int c - 48)) 0 s"

definition xor_py :: "bool \<Rightarrow> bool \<Rightarrow> bool" where
  "xor_py bool_a bool_b = ((bool_a \<and> \<not> bool_b) \<or> (bool_b \<and> \<not> bool_a))"

text \<open>
  Python floats are modelled by exact rational numbers: sums, products and quotients are
  exact, and no rounding error of binary floating point is represented.
\<close>

fun paths_loop ::
  "filesystem \<Rightarrow> bool option \<Rightarrow> str list \<Rightarrow> str list \<Rightarrow> rat option list \<Rightarrow> str option
     \<Rightarrow> rat option list \<times> str list" where
  "paths_loop fs offensive [] fortune_files percentages percentage = (percentages, fortune_files)"
| "paths_loop fs offensive (path # rest) fortune_files percentages percentage =
     (case percentage_match path of
        Some group1 \<Rightarrow> paths_loop fs offensive rest fortune_files percentages (Some group1)
      | None \<Rightarrow>
          (if isdir fs path then
             (let listed = map (\<lambda>filename. take (length filename - length INDEX_EXT) filename)
                             (glob_index fs path);
                  files_in_path =
                    (case offensive of
                       None \<Rightarrow> listed
                     | Some off \<Rightarrow> filter (\<lambda>f. \<not> xor_py (endswith f (u ''-o'')) off) listed);
                  fortune_files' = fortune_files @ files_in_path;
                  number_of_added_files = int (length fortune_files') - int (length percentages);
                  percentages' = percentages @
                    replicate (length fortune_files' - length percentages)
                      (case percentage of
                         Some p \<Rightarrow> Some (of_int (int_of_digits p) / of_int number_of_added_files)
                       | None \<Rightarrow> None)
              in paths_loop fs offensive rest fortune_files' percentages' None)
           else
             (let keep =
                    (case offensive of
                       None \<Rightarrow> True
                     | Some off \<Rightarrow> \<not> xor_py (endswith path (u ''-o'')) off)
              in if keep then
                   paths_loop fs offensive rest (fortune_files @ [path])
                     (percentages @
                        [case percentage of
                           Some p \<Rightarrow> Some (of_int (int_of_digits p))
                         | None \<Rightarrow> None])
                     None
                 else paths_loop fs offensive rest fortune_files percentages None)))"

fun given_values :: "rat option list \<Rightarrow> rat list" where
  \<comment> \<open>\<open>[abs(value) for value in percentages if value is not None]\<close>\<close>
  "given_values [] = []"
| "given_values (None # rest) = given_values rest"
| "given_values (Some value # rest) = abs value # given_values rest"

text \<open>
  The entries of \<open>percentages\<close> are floats or \<open>None\<close>, for which \<open>abs\<close> and \<open>float\<close> raise no
  \<open>ValueError\<close>: the \<open>except\<close> branches of \<open>check_percentages\<close> are not reached. The rescaling
  factor \<open>100.0 / percentage_sum\<close> is evaluated once per entry, so an empty list is returned
  as it is and a list of zeros raises \<open>ZeroDivisionError\<close>.
\<close>

definition check_percentages :: "rat option list \<Rightarrow> py_error + rat option list" where
  "check_percentages percentages =
     (let percentage_sum = sum_list (given_values percentages) in
      if percentage_sum > 100 then
        Inl (SystemExit 2 ''ERROR: Percentages add up to more than a hundred!'')
      else if length percentages = length (given_values percentages) then
        (if percentages = [] then Inr []
         else if percentage_sum = 0 then Inl ZeroDivisionError
         else Inr (map (map_option (\<lambda>p. abs (p * (100 / percentage_sum)))) percentages))
      else Inr (map (map_option abs) percentages))"

definition fortune_files_from_paths ::
  "filesystem \<Rightarrow> str list \<Rightarrow> bool option \<Rightarrow> py_error + (rat option list \<times> str list)" where
  "fortune_files_from_paths fs fortunepaths offensive =
     (case paths_loop fs offensive fortunepaths [] [] None of
        (percentages, fortune_files) \<Rightarrow>
          (case check_percentages percentages of
             Inl e \<Rightarrow> Inl e
           | Inr checked \<Rightarrow> Inr (checked, fortune_files)))"

section \<open>Weight calculator: \<open>adjust_weights_with_percentages\<close>\<close>

definition py_round :: "rat \<Rightarrow> int" where
  \<comment> \<open>\<open>int(round(x))\<close>: Python 3 rounds a half to the even neighbour\<close>
  "py_round x =
     (let f = \<lfloor>x\<rfloor>; d = x - of_int f in
      if d < 1 / 2 then f else if 1 / 2 < d then f + 1 else if even f then f else f + 1)"

fun sums_loop :: "(int \<times> rat option) list \<Rightarrow> int \<Rightarrow> int \<Rightarrow> rat \<Rightarrow> int \<times> int \<times> rat" where
  "sums_loop [] sum_of_weights sum_of_free_weights sum_of_percentages =
     (sum_of_weights, sum_of_free_weights, sum_of_percentages)"
| "sums_loop ((weight, percentage) # rest) sum_of_weights sum_of_free_weights sum_of_percentages =
     (case percentage of
        None \<Rightarrow>
          sums_loop rest (sum_of_weights + weight) (sum_of_free_weights + weight) sum_of_percentages
      | Some p \<Rightarrow>
          sums_loop rest (sum_of_weights + weight) sum_of_free_weights (sum_of_percentages + p))"

text \<open>
  The second loop divides by \<open>float(100 * sum_of_free_weights)\<close> for each entry without a
  percentage; Python raises \<open>ZeroDivisionError\<close> for a float division by zero.
\<close>

fun result_loop ::
  "(int \<times> rat option) list \<Rightarrow> int \<Rightarrow> int \<Rightarrow> rat \<Rightarrow> int list \<Rightarrow> py_error + int list" where
  "result_loop [] sum_of_weights sum_of_free_weights sum_of_percentages result = Inr result"
| "result_loop ((weight, percentage) # rest) sum_of_weights sum_of_free_weights
       sum_of_percentages result =
     (case percentage of
        None \<Rightarrow>
          (if 100 * sum_of_free_weights = 0 then Inl ZeroDivisionError
           else
             result_loop rest sum_of_weights sum_of_free_weights sum_of_percentages
               (result @
                  [py_round
                     ((of_int weight * (100 - sum_of_percentages) * of_int sum_of_weights)
                        / of_int (100 * sum_of_free_weights))]))
      | Some p \<Rightarrow>
          result_loop rest sum_of_weights sum_of_free_weights sum_of_percentages
            (result @ [py_round ((p * of_int sum_of_weights) / 100)]))"

definition adjust_weights_with_percentages ::
  "int list \<Rightarrow> rat option list \<Rightarrow> py_error + int list" where
  "adjust_weights_with_percentages weights percentages =
     (case sums_loop (zip weights percentages) 0 0 0 of
        (sum_of_weights, sum_of_free_weights, sum_of_percentages) \<Rightarrow>
          result_loop (zip weights percentages)
            sum_of_weights sum_of_free_weights sum_of_percentages [])"

section \<open>Selector: \<open>rselect_fortune_file\<close> and \<open>get_random_fortune\<close>\<close>

text \<open>
  The statement after the scan, \<open>raise (Exception, "...")\<close>, raises a tuple, which
  Python 3 answers with a \<open>TypeError\<close>.
\<close>

fun scan_weights :: "str list \<Rightarrow> int list \<Rightarrow> int \<Rightarrow> int \<Rightarrow> nat \<Rightarrow> py_error + str" where
  \<comment> \<open>the second loop over \<open>weights\<close>; \<open>running\<close> is the source's \<open>total\<close>\<close>
  "scan_weights fortune_files [] rand_limit running i = Inl TypeError"
| "scan_weights fortune_files (weight # rest) rand_limit running i =
     (if running + weight \<ge> rand_limit then
        (if i < length fortune_files then Inr (fortune_files ! i) else Inl IndexError)
      else scan_weights fortune_files rest rand_limit (running + weight) (Suc i))"

definition rselect_fortune_file ::
  "rand \<Rightarrow> nat \<Rightarrow> str list \<Rightarrow> int list option \<Rightarrow> py_error + (str \<times> nat)" where
  "rselect_fortune_file rnd k fortune_files weights =
     (case weights of
        None \<Rightarrow> choice rnd k fortune_files
      | Some ws \<Rightarrow>
          (case randbelow rnd k (foldl (+) 0 ws) of
             Inl e \<Rightarrow> Inl e
           | Inr (r, k') \<Rightarrow>
               (case scan_weights fortune_files ws (r + 1) 0 0 of
                  Inl e \<Rightarrow> Inl e
                | Inr fortune_file \<Rightarrow> Inr (fortune_file, k'))))"

definition extract_fortune :: "filesystem \<Rightarrow> str \<Rightarrow> int \<Rightarrow> int \<Rightarrow> py_error + str" where
  \<comment> \<open>the end of the body of \<open>get_random_fortune\<close>, once a record is accepted; the
      message of the \<open>OSError\<close> follows \<open>ERROR:\<close> on stderr\<close>
  "extract_fortune fs fortune_file start len =
     (case contents fs fortune_file of
        None \<Rightarrow> Inl (SystemExit 1 ''ERROR: '')
      | Some text \<Rightarrow>
          (case read_at text start len of
             Inl e \<Rightarrow> Inl e
           | Inr fortunecookie \<Rightarrow>
               Inr (if endswith fortune_file (u ''-o'') then rot13 fortunecookie
                    else fortunecookie)))"

definition too_strict :: string where
  "too_strict =
     ''I've given up on finding a fortune that matches your criteria. They are too strict.''"

definition rejected :: "int \<Rightarrow> int option \<Rightarrow> int \<Rightarrow> bool" where
  \<comment> \<open>\<open>length < min_length or (max_length is not None and length > max_length)\<close>\<close>
  "rejected min_length max_length len =
     (len < min_length \<or> (case max_length of None \<Rightarrow> False | Some m \<Rightarrow> len > m))"

text \<open>
  The \<open>while True\<close> loop, with the attempt counter and the random source's counter as
  its state. A result is the returned string, the lines printed to stderr and the
  number of raw random values consumed.
\<close>

function fortune_loop ::
  "filesystem \<Rightarrow> rand \<Rightarrow> str list \<Rightarrow> int list option \<Rightarrow> int \<Rightarrow> int option \<Rightarrow> int \<Rightarrow> nat
     \<Rightarrow> py_error + (str \<times> string list \<times> nat)" where
  "fortune_loop fs rnd fortune_files weights min_length max_length attempt k =
     (case rselect_fortune_file rnd k fortune_files weights of
        Inl e \<Rightarrow> Inl e
      | Inr (fortune_file, k1) \<Rightarrow>
          (case fortune_file_data fs fortune_file of
             Inl e \<Rightarrow> Inl e
           | Inr data \<Rightarrow>
               (case choice rnd k1 data of
                  Inl e \<Rightarrow> Inl e
                | Inr ((start, len), k2) \<Rightarrow>
                    (if rejected min_length max_length len then
                       (if attempt + 1 > ATTEMPTS then Inr ([], [too_strict], k2)
                        else fortune_loop fs rnd fortune_files weights min_length max_length
                               (attempt + 1) k2)
                     else
                       (case extract_fortune fs fortune_file start len of
                          Inl e \<Rightarrow> Inl e
                        | Inr fortune \<Rightarrow> Inr (fortune, [], k2))))))"
  by pat_completeness auto
termination
  by (relation "measure (\<lambda>(fs, rnd, fortune_files, weights, min_length, max_length, attempt, k).
        nat (ATTEMPTS - attempt))") auto

declare fortune_loop.simps [simp del]

fun collect_weights :: "filesystem \<Rightarrow> str list \<Rightarrow> int list \<Rightarrow> py_error + int list" where
  "collect_weights fs [] weights = Inr weights"
| "collect_weights fs (fortune_file # rest) weights =
     (case fortune_file_data fs fortune_file of
        Inl e \<Rightarrow> Inl e
      | Inr data \<Rightarrow> collect_weights fs rest (weights @ [int (length data)]))"

definition get_random_fortune ::
  "filesystem \<Rightarrow> rand \<Rightarrow> str list \<Rightarrow> bool \<Rightarrow> bool option \<Rightarrow> int \<Rightarrow> int option
     \<Rightarrow> py_error + (str \<times> string list \<times> nat)" where
  "get_random_fortune fs rnd fortunepaths weighted offensive min_length max_length =
     (case fortune_files_from_paths fs fortunepaths offensive of
        Inl e \<Rightarrow> Inl e
      | Inr (percentages, fortune_files) \<Rightarrow>
          (if weighted then
             (case collect_weights fs fortune_files [] of
                Inl e \<Rightarrow> Inl e
              | Inr raw \<Rightarrow>
                  (case adjust_weights_with_percentages raw percentages of
                     Inl e \<Rightarrow> Inl e
                   | Inr weights \<Rightarrow>
                       fortune_loop fs rnd fortune_files (Some weights)
                         min_length max_length 0 0))
           else fortune_loop fs rnd fortune_files None min_length max_length 0 0))"

section \<open>Percentage markers as the specification words them\<close>



section \<open>Final weights as the specification words them\<close>



definition spec_final_weight :: "int \<Rightarrow> rat \<Rightarrow> int \<Rightarrow> int \<times> rat option \<Rightarrow> int" where
  "spec_final_weight total_raw set_sum unset_sum entry =
     (case entry of
        (w, Some p) \<Rightarrow> py_round (p * of_int total_raw / 100)
      | (w, None) \<Rightarrow>
          py_round (of_int w * of_int total_raw * (100 - set_sum) / (100 * of_int unset_sum)))"

section \<open>An example file system\<close>

text \<open>
  Three corpus files with their indexes, used to run the operations on concrete inputs:
  \<open>f\<close> holds the single record \<open>"A\n"\<close>; \<open>jokes-o\<close> holds one record stored in rotated
  form; \<open>e\<close> holds a record with a non-ASCII character, a delimiter line and a second
  record, indexed with the pairs \<open>read_fortunes\<close> yields for it.
\<close>

definition example_fs :: filesystem where
  "example_fs =
     \<lparr> isdir = (\<lambda>path. False),
       glob_index = (\<lambda>path. []),
       index_files = (\<lambda>path.
         if path = u ''f.p4dat'' then Some [(0, 2)]
         else if path = u ''jokes-o.p4dat'' then Some [(0, 6)]
         else if path = u ''e.p4dat'' then Some [(0, 2), (5, 2)]
         else None),
       contents = (\<lambda>path.
         if path = u ''f'' then Some (u ''A\<newline>'')
         else if path = u ''jokes-o'' then Some (u ''Uryyb\<newline>'')
         else if path = u ''e'' then Some [233, 10, 37, 10, 66, 10]
         else None) \<rparr>"

text \<open>
  A corpus \<open>g\<close> with a short and a longer record, and a random source that picks the
  longer record at the draw numbered 20001 only.
\<close>

definition late_fs :: filesystem where
  "late_fs =
     \<lparr> isdir = (\<lambda>path. False),
       glob_index = (\<lambda>path. []),
       index_files = (\<lambda>path. if path = u ''g.p4dat'' then Some [(0, 2), (4, 3)] else None),
       contents = (\<lambda>path.
         if path = u ''g'' then Some (u ''A\<newline>%\<newline>BB\<newline>'') else None) \<rparr>"

definition late_rnd :: rand where
  \<comment> \<open>the raw value 1 at the draw numbered 20001, the value 0 at every other draw\<close>
  "late_rnd k = (if k = 20001 then 1 else 0)"

section \<open>Properties of the parser\<close>




text \<open>
  C1. Each yielded triple should carry the UTF-8 byte length of its text. The record
  closed by a delimiter line is yielded with \<open>len(fortune)\<close>, a count of code points:
  for the stream of the two lines \<open>[233, 10]\<close> (e acute, newline; code point 233 is two
  bytes in UTF-8) and \<open>"%\n"\<close> the parser yields length 2, while the text has 3 bytes.
\<close>

theorem read_fortunes_delimited_length_counts_code_points:
  "read_fortunes [[233, 10], delimiter] = [(0, 2, [233, 10])] \<and> utf8_len [233, 10] = 3"
  by (simp add: read_fortunes_def delimiter_def utf8_width_def)

text \<open>
  C5. A delimiter line at position 0 is skipped, but the skip also bypasses the byte
  accounting: for the stream \<open>"%\n"\<close>, \<open>"A\n"\<close> the record \<open>"A\n"\<close> starts at byte 2 of the
  stream (after the two bytes of the delimiter line) and is yielded with offset 0.
\<close>

theorem read_fortunes_leading_delimiter_offset:
  "read_fortunes [delimiter, u ''A\<newline>''] = [(0, 2, u ''A\<newline>'')] \<and> utf8_len delimiter = 2"
  by (simp add: read_fortunes_def delimiter_def utf8_width_def u_def)

section \<open>Properties of the text extractor\<close>

lemma rot_twice: "n < 26 \<Longrightarrow> ((n + 13) mod 26 + 13) mod 26 = (n::nat)"
  by (cases "n < 13") (auto simp: mod_if)

lemma rot13_char_upper: "n < 26 \<Longrightarrow> rot13_char (65 + n) = 65 + (n + 13) mod 26"
  by (simp add: rot13_char_def)

lemma rot13_char_lower: "n < 26 \<Longrightarrow> rot13_char (97 + n) = 97 + (n + 13) mod 26"
  by (simp add: rot13_char_def)

lemma rot13_char_other:
  "\<not> (65 \<le> c \<and> c \<le> 90) \<Longrightarrow> \<not> (97 \<le> c \<and> c \<le> 122) \<Longrightarrow> rot13_char c = c"
  by (auto simp: rot13_char_def)

lemma rot13_char_involution: "rot13_char (rot13_char c) = c"
proof -
  consider (upper) "65 \<le> c \<and> c \<le> 90" | (lower) "97 \<le> c \<and> c \<le> 122"
    | (other) "\<not> (65 \<le> c \<and> c \<le> 90) \<and> \<not> (97 \<le> c \<and> c \<le> 122)"
    by blast
  then show ?thesis
  proof cases
    case upper
    define n where "n = c - 65"
    have n: "n < 26" "c = 65 + n" using upper unfolding n_def by arith+
    have m: "(n + 13) mod 26 < 26" by simp
    show ?thesis
      unfolding n(2) rot13_char_upper [OF n(1)] rot13_char_upper [OF m] rot_twice [OF n(1)] ..
  next
    case lower
    define n where "n = c - 97"
    have n: "n < 26" "c = 97 + n" using lower unfolding n_def by arith+
    have m: "(n + 13) mod 26 < 26" by simp
    show ?thesis
      unfolding n(2) rot13_char_lower [OF n(1)] rot13_char_lower [OF m] rot_twice [OF n(1)] ..
  next
    case other
    then have "rot13_char c = c" by (simp add: rot13_char_other)
    then show ?thesis by simp
  qed
qed

lemma rot13_involution: "rot13 (rot13 s) = s"
  by (simp add: rot13_def rot13_char_involution map_idI)


text \<open>
  C9. When the record drawn by \<open>get_random_fortune\<close> is accepted and comes from a file
  whose name ends in \<open>-o\<close>, the loop returns the rotation cipher applied once to the text
  read from the file; and the cipher applied twice to any text gives that text back.
\<close>

theorem offensive_record_is_rot13_of_stored_text:
  assumes "rselect_fortune_file rnd k fortune_files weights = Inr (fortune_file, k')"
    and "fortune_file_data fs fortune_file = Inr data"
    and "choice rnd k' data = Inr ((start, len), k'')"
    and "\<not> rejected min_length max_length len"
    and "endswith fortune_file (u ''-o'')"
    and "contents fs fortune_file = Some corpus"
    and "read_at corpus start len = Inr stored"
  shows "fortune_loop fs rnd fortune_files weights min_length max_length attempt k
           = Inr (rot13 stored, [], k'')
         \<and> (\<forall>s. rot13 (rot13 s) = s)"
proof -
  have "extract_fortune fs fortune_file start len = Inr (rot13 stored)"
    using assms(5-7) by (simp add: extract_fortune_def)
  then have "fortune_loop fs rnd fortune_files weights min_length max_length attempt k
           = Inr (rot13 stored, [], k'')"
    using assms(1-4) by (subst fortune_loop.simps) simp
  then show ?thesis by (simp add: rot13_involution)
qed

theorem offensive_record_is_rot13_of_stored_text_witness:
  "fortune_loop example_fs (\<lambda>n. 0) [u ''jokes-o''] None 0 None 0 0
     = Inr (u ''Hello\<newline>'', [], 2)"
proof -
  have "fortune_loop example_fs (\<lambda>n. 0) [u ''jokes-o''] None 0 None 0 0
          = Inr (rot13 (u ''Uryyb\<newline>''), [], 2)
        \<and> (\<forall>s. rot13 (rot13 s) = s)"
    by (rule offensive_record_is_rot13_of_stored_text
          [where fortune_file = "u ''jokes-o''" and k' = 1 and data = "[(0, 6)]"
             and start = 0 and len = 6 and corpus = "u ''Uryyb\<newline>''"])
       (simp_all add: rselect_fortune_file_def choice_def fortune_file_data_def example_fs_def
          INDEX_EXT_def u_def rejected_def endswith_def read_at_def)
  then show ?thesis by (simp add: rot13_def rot13_char_def u_def)
qed


section \<open>Properties of the selector\<close>

lemma foldl_add_sum_list: "foldl (+) a ws = a + sum_list (ws :: int list)"
  by (induction ws arbitrary: a) simp_all

lemma scan_weights_finds:
  "running < rand_limit \<Longrightarrow> rand_limit \<le> running + sum_list ws \<Longrightarrow>
   i + length ws \<le> length fortune_files \<Longrightarrow>
   \<exists>j<length ws.
     scan_weights fortune_files ws rand_limit running i = Inr (fortune_files ! (i + j)) \<and>
     rand_limit \<le> running + sum_list (take (Suc j) ws) \<and>
     (\<forall>j'<j. running + sum_list (take (Suc j') ws) < rand_limit)"
proof (induction ws arbitrary: running i)
  case Nil
  then show ?case by simp
next
  case (Cons w ws)
  show ?case
  proof (cases "rand_limit \<le> running + w")
    case True
    with Cons.prems show ?thesis
      by (intro exI [of _ 0]) simp
  next
    case False
    then have less: "running + w < rand_limit" by simp
    from Cons.prems have "rand_limit \<le> (running + w) + sum_list ws" by simp
    moreover from Cons.prems have "Suc i + length ws \<le> length fortune_files" by simp
    ultimately obtain j where j: "j < length ws"
      "scan_weights fortune_files ws rand_limit (running + w) (Suc i) = Inr (fortune_files ! (Suc i + j))"
      "rand_limit \<le> (running + w) + sum_list (take (Suc j) ws)"
      "\<forall>j'<j. (running + w) + sum_list (take (Suc j') ws) < rand_limit"
      using Cons.IH [OF less] by blast
    have "\<forall>j'<Suc j. running + sum_list (take (Suc j') (w # ws)) < rand_limit"
    proof (intro allI impI)
      fix j' assume "j' < Suc j"
      show "running + sum_list (take (Suc j') (w # ws)) < rand_limit"
      proof (cases j')
        case 0
        with less show ?thesis by simp
      next
        case (Suc m)
        with \<open>j' < Suc j\<close> have "m < j" by simp
        with j(4) have "(running + w) + sum_list (take (Suc m) ws) < rand_limit" by blast
        with Suc show ?thesis by (simp add: add.assoc)
      qed
    qed
    with j False show ?thesis
      by (intro exI [of _ "Suc j"]) (simp add: add.assoc)
  qed
qed


text \<open>
  C10. With as many weights as files, none negative and a positive total, the weighted
  draw returns the file at the first position whose cumulative weight reaches the drawn
  value, which lies between 1 and the total; it is an element of the list, so the
  statement after the scan is never reached.
\<close>

theorem rselect_fortune_file_weighted_in_list:
  assumes "fortune_files \<noteq> []"
    and "length weights = length fortune_files"
    and "\<forall>w\<in>set weights. 0 \<le> w"
    and "0 < sum_list weights"
  shows "\<exists>i<length fortune_files.
     rselect_fortune_file rnd k fortune_files (Some weights) = Inr (fortune_files ! i, Suc k) \<and>
     fortune_files ! i \<in> set fortune_files \<and>
     1 \<le> int (rnd k) mod sum_list weights + 1 \<and>
     int (rnd k) mod sum_list weights + 1 \<le> sum_list weights \<and>
     int (rnd k) mod sum_list weights + 1 \<le> sum_list (take (Suc i) weights) \<and>
     (\<forall>j<i. sum_list (take (Suc j) weights) < int (rnd k) mod sum_list weights + 1)"
proof -
  let ?total = "sum_list weights"
  let ?limit = "int (rnd k) mod ?total + 1"
  have "0 \<le> int (rnd k) mod ?total" "int (rnd k) mod ?total < ?total"
    using assms(4) by (rule pos_mod_sign, rule pos_mod_bound)
  then have range: "1 \<le> ?limit" "?limit \<le> ?total"
    by simp_all
  have "0 < ?limit" "?limit \<le> 0 + ?total" "0 + length weights \<le> length fortune_files"
    using range assms(2) by simp_all
  then obtain j where j: "j < length weights"
    "scan_weights fortune_files weights ?limit 0 0 = Inr (fortune_files ! (0 + j))"
    "?limit \<le> 0 + sum_list (take (Suc j) weights)"
    "\<forall>j'<j. 0 + sum_list (take (Suc j') weights) < ?limit"
    using scan_weights_finds [of 0 ?limit weights 0 fortune_files] by blast
  have "rselect_fortune_file rnd k fortune_files (Some weights) = Inr (fortune_files ! j, Suc k)"
    using assms(4) j(2) by (simp add: rselect_fortune_file_def randbelow_def foldl_add_sum_list)
  with j range assms(2) show ?thesis
    by (intro exI [of _ j]) simp
qed


theorem rselect_fortune_file_weighted_in_list_witness:
  "\<exists>i<3. rselect_fortune_file (\<lambda>_. 4) 0 [u ''a'', u ''b'', u ''c''] (Some [1, 3, 2]) = Inr ([u ''a'', u ''b'', u ''c''] ! i, Suc 0)"
  using rselect_fortune_file_weighted_in_list [of "[u ''a'', u ''b'', u ''c'']" "[1, 3, 2]" "\<lambda>_. 4" 0]
  by (auto simp: numeral_3_eq_3)




section \<open>Properties of the corpus resolver\<close>




lemma paths_loop_marker:
  "percentage_match entry = Some ds \<Longrightarrow>
   paths_loop fs offensive (entry # rest) fortune_files percentages percentage
     = paths_loop fs offensive rest fortune_files percentages (Some ds)"
  by simp








section \<open>Properties of the weight calculator\<close>


lemma spec_final_weight_None:
  "spec_final_weight t s d (w, None) = py_round (of_int w * of_int t * (100 - s) / (100 * of_int d))"
  by (simp add: spec_final_weight_def)











section \<open>Properties of the retry loop\<close>

lemma rselect_fortune_file_total:
  assumes "fortune_files \<noteq> []"
    and "weights = None \<or>
         (\<exists>ws. weights = Some ws \<and> length ws = length fortune_files \<and> 0 < sum_list ws)"
  shows "\<exists>f\<in>set fortune_files.
           rselect_fortune_file rnd k fortune_files weights = Inr (f, Suc k)"
proof (cases weights)
  case None
  with assms(1) show ?thesis
    by (simp add: rselect_fortune_file_def choice_def)
next
  case (Some ws)
  with assms(2) have len: "length ws = length fortune_files" and pos: "0 < sum_list ws"
    by simp_all
  let ?limit = "int (rnd k) mod sum_list ws + 1"
  have "0 \<le> int (rnd k) mod sum_list ws" "int (rnd k) mod sum_list ws < sum_list ws"
    using pos by (rule pos_mod_sign, rule pos_mod_bound)
  then have "0 < ?limit" "?limit \<le> 0 + sum_list ws" "0 + length ws \<le> length fortune_files"
    using len by simp_all
  then obtain j where j: "j < length ws"
    "scan_weights fortune_files ws ?limit 0 0 = Inr (fortune_files ! (0 + j))"
    using scan_weights_finds [of 0 ?limit ws 0 fortune_files] by blast
  have "rselect_fortune_file rnd k fortune_files weights = Inr (fortune_files ! j, Suc k)"
    using pos j(2) Some
    by (simp add: rselect_fortune_file_def randbelow_def foldl_add_sum_list)
  moreover have "fortune_files ! j \<in> set fortune_files"
    using j(1) len by simp
  ultimately show ?thesis by blast
qed

lemma fortune_loop_rejected_step:
  assumes "rselect_fortune_file rnd k fortune_files weights = Inr (f, Suc k)"
    and "fortune_file_data fs f = Inr data"
    and "data \<noteq> []"
    and "\<forall>(s, l)\<in>set data. rejected min_length max_length l"
  shows "fortune_loop fs rnd fortune_files weights min_length max_length attempt k =
     (if attempt + 1 > ATTEMPTS then Inr ([], [too_strict], Suc (Suc k))
      else fortune_loop fs rnd fortune_files weights min_length max_length
             (attempt + 1) (Suc (Suc k)))"
proof -
  let ?r = "data ! (rnd (Suc k) mod length data)"
  have mem: "?r \<in> set data" using assms(3) by simp
  obtain s l where r: "?r = (s, l)" by (cases ?r)
  with mem assms(4) have rej: "rejected min_length max_length l" by force
  have ch: "choice rnd (Suc k) data = Inr ((s, l), Suc (Suc k))"
    using assms(3) r by (simp add: choice_def)
  show ?thesis
    by (subst fortune_loop.simps) (simp add: assms(1,2) ch rej)
qed

lemma fortune_loop_gives_up:
  assumes sel: "\<And>k. \<exists>f\<in>set fortune_files.
                  rselect_fortune_file rnd k fortune_files weights = Inr (f, Suc k)"
    and dat: "\<And>f. f \<in> set fortune_files \<Longrightarrow>
                \<exists>data. fortune_file_data fs f = Inr data \<and> data \<noteq> [] \<and>
                  (\<forall>(s, l)\<in>set data. rejected min_length max_length l)"
  shows "n = nat (ATTEMPTS - attempt) \<Longrightarrow> attempt \<le> ATTEMPTS \<Longrightarrow>
     fortune_loop fs rnd fortune_files weights min_length max_length attempt k
       = Inr ([], [too_strict], k + 2 * nat (ATTEMPTS + 1 - attempt))"
proof (induction n arbitrary: attempt k)
  case 0
  then have a: "attempt = ATTEMPTS" by simp
  from sel obtain f where f: "f \<in> set fortune_files"
    "rselect_fortune_file rnd k fortune_files weights = Inr (f, Suc k)" by blast
  from dat [OF f(1)] obtain data where d: "fortune_file_data fs f = Inr data" "data \<noteq> []"
    "\<forall>(s, l)\<in>set data. rejected min_length max_length l" by blast
  show ?case
    using fortune_loop_rejected_step [OF f(2) d, of attempt] a by simp
next
  case (Suc n)
  then have a: "attempt < ATTEMPTS" "n = nat (ATTEMPTS - (attempt + 1))" "attempt + 1 \<le> ATTEMPTS"
    by simp_all
  from sel obtain f where f: "f \<in> set fortune_files"
    "rselect_fortune_file rnd k fortune_files weights = Inr (f, Suc k)" by blast
  from dat [OF f(1)] obtain data where d: "fortune_file_data fs f = Inr data" "data \<noteq> []"
    "\<forall>(s, l)\<in>set data. rejected min_length max_length l" by blast
  have "fortune_loop fs rnd fortune_files weights min_length max_length attempt k
      = fortune_loop fs rnd fortune_files weights min_length max_length (attempt + 1) (Suc (Suc k))"
    using fortune_loop_rejected_step [OF f(2) d, of attempt] a(1) by simp
  also have "\<dots> = Inr ([], [too_strict], Suc (Suc k) + 2 * nat (ATTEMPTS + 1 - (attempt + 1)))"
    using Suc.IH [OF a(2) a(3)] .
  also have "Suc (Suc k) + 2 * nat (ATTEMPTS + 1 - (attempt + 1))
      = k + 2 * nat (ATTEMPTS + 1 - attempt)"
    using a(1) by (simp add: nat_diff_distrib nat_add_distrib) 
  finally show ?case .
qed

lemma fortune_loop_drawn_rejected:
  assumes "rselect_fortune_file rnd k fortune_files weights = Inr (f, Suc k)"
    and "fortune_file_data fs f = Inr data"
    and "data \<noteq> []"
    and "rejected min_length max_length (snd (data ! (rnd (Suc k) mod length data)))"
  shows "fortune_loop fs rnd fortune_files weights min_length max_length attempt k =
     (if attempt + 1 > ATTEMPTS then Inr ([], [too_strict], Suc (Suc k))
      else fortune_loop fs rnd fortune_files weights min_length max_length
             (attempt + 1) (Suc (Suc k)))"
proof -
  let ?r = "data ! (rnd (Suc k) mod length data)"
  obtain s l where r: "?r = (s, l)" by (cases ?r)
  with assms(4) have rej: "rejected min_length max_length l" by simp
  have ch: "choice rnd (Suc k) data = Inr ((s, l), Suc (Suc k))"
    using assms(3) r by (simp add: choice_def)
  show ?thesis
    by (subst fortune_loop.simps) (simp add: assms(1,2) ch rej)
qed

lemma fortune_loop_rejections:
  assumes "\<And>j. j < n \<Longrightarrow> \<exists>f data.
              rselect_fortune_file rnd (k + 2 * j) fortune_files weights = Inr (f, Suc (k + 2 * j))
              \<and> fortune_file_data fs f = Inr data \<and> data \<noteq> []
              \<and> rejected min_length max_length
                  (snd (data ! (rnd (Suc (k + 2 * j)) mod length data)))"
    and "attempt + int n \<le> ATTEMPTS"
  shows "fortune_loop fs rnd fortune_files weights min_length max_length attempt k
       = fortune_loop fs rnd fortune_files weights min_length max_length
           (attempt + int n) (k + 2 * n)"
  using assms
proof (induction n arbitrary: attempt k)
  case 0
  show ?case by simp
next
  case (Suc n)
  from Suc.prems(1) [of 0] obtain f data where first:
    "rselect_fortune_file rnd k fortune_files weights = Inr (f, Suc k)"
    "fortune_file_data fs f = Inr data" "data \<noteq> []"
    "rejected min_length max_length (snd (data ! (rnd (Suc k) mod length data)))"
    by auto
  have more: "\<exists>f data.
      rselect_fortune_file rnd (Suc (Suc k) + 2 * j) fortune_files weights
        = Inr (f, Suc (Suc (Suc k) + 2 * j))
      \<and> fortune_file_data fs f = Inr data \<and> data \<noteq> []
      \<and> rejected min_length max_length
          (snd (data ! (rnd (Suc (Suc (Suc k) + 2 * j)) mod length data)))"
    if "j < n" for j
    using Suc.prems(1) [of "Suc j"] that by simp
  from Suc.prems(2) have le: "attempt + 1 + int n \<le> ATTEMPTS" and lt: "\<not> attempt + 1 > ATTEMPTS"
    by simp_all
  have "fortune_loop fs rnd fortune_files weights min_length max_length attempt k
      = fortune_loop fs rnd fortune_files weights min_length max_length (attempt + 1) (Suc (Suc k))"
    using fortune_loop_drawn_rejected [OF first, of attempt] lt by simp
  also have "\<dots> = fortune_loop fs rnd fortune_files weights min_length max_length
      (attempt + 1 + int n) (Suc (Suc k) + 2 * n)"
    using more le by (rule Suc.IH)
  also have "attempt + 1 + int n = attempt + int (Suc n)" by simp
  also have "Suc (Suc k) + 2 * n = k + 2 * Suc n" by simp
  finally show ?case .
qed

text \<open>
  C2. When every record of every file violates the length bounds, the loop ends with
  the empty string and the diagnostic, and neither hangs nor raises; but it gives up
  at the rejection after which \<open>attempt > ATTEMPTS\<close> holds, the 10001st. Each attempt
  consumes two raw values of the random source (one for the file, one for the record),
  and the loop has consumed \<open>2 * 10001\<close> of them when it returns.
\<close>

theorem gives_up_after_one_more_than_ATTEMPTS:
  assumes "fortune_files \<noteq> []"
    and "weights = None \<or>
         (\<exists>ws. weights = Some ws \<and> length ws = length fortune_files \<and> 0 < sum_list ws)"
    and "\<forall>f\<in>set fortune_files.
           \<exists>data. fortune_file_data fs f = Inr data \<and> data \<noteq> [] \<and>
             (\<forall>(s, l)\<in>set data. rejected min_length max_length l)"
  shows "fortune_loop fs rnd fortune_files weights min_length max_length 0 0
           = Inr ([], [too_strict], 2 * 10001)"
proof -
  have "fortune_loop fs rnd fortune_files weights min_length max_length 0 0
      = Inr ([], [too_strict], 0 + 2 * nat (ATTEMPTS + 1 - 0))"
    using rselect_fortune_file_total [OF assms(1,2)] assms(3)
    by (intro fortune_loop_gives_up [of fortune_files rnd weights fs min_length max_length
          "nat (ATTEMPTS - 0)" 0 0]) (auto simp: ATTEMPTS_def)
  then show ?thesis by (simp add: ATTEMPTS_def)
qed

theorem gives_up_after_one_more_than_ATTEMPTS_witness:
  "get_random_fortune example_fs (\<lambda>n. 0) [u ''f''] False None 1000 (Some 1000)
     = Inr ([], [too_strict], 20002)"
proof -
  have d: "fortune_file_data example_fs (u ''f'') = Inr [(0, 2)]"
    by (simp add: fortune_file_data_def example_fs_def INDEX_EXT_def u_def)
  have "fortune_loop example_fs (\<lambda>n. 0) [u ''f''] None 1000 (Some 1000) 0 0
           = Inr ([], [too_strict], 2 * 10001)"
    by (rule gives_up_after_one_more_than_ATTEMPTS) (simp_all add: d rejected_def)
  moreover have "fortune_files_from_paths example_fs [u ''f''] None = Inr ([None], [u ''f''])"
    by (simp add: fortune_files_from_paths_def check_percentages_def example_fs_def u_def)
  ultimately show ?thesis by (simp add: get_random_fortune_def)
qed

text \<open>
  The attempt after the 10000th rejection is a full attempt: when the source draws a
  record within the bounds there, that record is returned.
\<close>

lemma fortune_loop_attempt_10001_accepted:
  "get_random_fortune late_fs late_rnd [u ''g''] False None 3 None
     = Inr (u ''BB\<newline>'', [], 20002)"
proof -
  have d: "fortune_file_data late_fs (u ''g'') = Inr [(0, 2), (4, 3)]"
    by (simp add: fortune_file_data_def late_fs_def INDEX_EXT_def u_def)
  have sel: "rselect_fortune_file late_rnd k [u ''g''] None = Inr (u ''g'', Suc k)" for k
    by (simp add: rselect_fortune_file_def choice_def)
  have skip: "fortune_loop late_fs late_rnd [u ''g''] None 3 None 0 0
      = fortune_loop late_fs late_rnd [u ''g''] None 3 None (0 + int 10000) (0 + 2 * 10000)"
  proof (rule fortune_loop_rejections)
    fix j :: nat
    assume "j < 10000"
    then have "late_rnd (Suc (0 + 2 * j)) = 0" by (simp add: late_rnd_def)
    then show "\<exists>f data.
        rselect_fortune_file late_rnd (0 + 2 * j) [u ''g''] None = Inr (f, Suc (0 + 2 * j))
        \<and> fortune_file_data late_fs f = Inr data \<and> data \<noteq> []
        \<and> rejected 3 None (snd (data ! (late_rnd (Suc (0 + 2 * j)) mod length data)))"
      by (intro exI [of _ "u ''g''"] exI [of _ "[(0, 2), (4, 3)]"])
         (simp add: sel d rejected_def)
  next
    show "0 + int 10000 \<le> ATTEMPTS" by (simp add: ATTEMPTS_def)
  qed
  have ch: "choice late_rnd 20001 [(0, 2), (4, 3) :: int \<times> int] = Inr ((4, 3), 20002)"
    by (simp add: choice_def late_rnd_def)
  have ex: "extract_fortune late_fs (u ''g'') 4 3 = Inr (u ''BB\<newline>'')"
    by (simp add: extract_fortune_def late_fs_def read_at_def u_def endswith_def
          utf8_width_def eval_nat_numeral)
  have last: "fortune_loop late_fs late_rnd [u ''g''] None 3 None 10000 20000
      = Inr (u ''BB\<newline>'', [], 20002)"
    using sel [of 20000] ch
    by (subst fortune_loop.simps) (simp add: d ex rejected_def)
  have "fortune_files_from_paths late_fs [u ''g''] None = Inr ([None], [u ''g''])"
    by (simp add: fortune_files_from_paths_def check_percentages_def late_fs_def u_def)
  with skip last show ?thesis by (simp add: get_random_fortune_def)
qed


section \<open>The parser and the extractor together\<close>










end
